theory Spec2Isabelle
  imports Main "HOL-Library.AList"
begin

section \<open>JavaScript values, errors and DOM nodes\<close>

text \<open>
  The module \<^verbatim>\<open>Aria\<close> reads and writes DOM elements. The values it handles are
  \<^verbatim>\<open>undefined\<close>, \<^verbatim>\<open>null\<close>, booleans and strings; strict equality \<^verbatim>\<open>===\<close> on these is
  equality of the datatype.
\<close>

datatype jsval = JUndefined | JNull | JBool bool | JStr string

text \<open>Truthiness, as tested by \<^verbatim>\<open>if (v)\<close>: the empty string is falsy.\<close>

fun truthy :: "jsval \<Rightarrow> bool" where
  "truthy JUndefined = False"
| "truthy JNull = False"
| "truthy (JBool b) = b"
| "truthy (JStr s) = (s \<noteq> [])"

text \<open>
  Reading a property of \<^verbatim>\<open>null\<close> or \<^verbatim>\<open>undefined\<close> throws a TypeError; a selector
  that does not parse makes \<^verbatim>\<open>querySelector\<close> throw a SyntaxError.
\<close>

datatype error = TypeError | SyntaxError

text \<open>Diagnostics written to the console (\<^verbatim>\<open>console.warn\<close>, \<^verbatim>\<open>console.error\<close>).\<close>

datatype diag = Warn_no_id | Warn_no_controls | Error_no_label

text \<open>
  An element: its tag name (upper case, as \<^verbatim>\<open>tagName\<close> reports it for HTML elements), its
  attribute list in order (names to string values), the properties \<^verbatim>\<open>disabled\<close>,
  \<^verbatim>\<open>checked\<close> and \<^verbatim>\<open>selected\<close> (which are \<^verbatim>\<open>undefined\<close> on an element that has no such
  property, such as a \<^verbatim>\<open>div\<close> with a role), and its rendered text.
\<close>

record node =
  tagName :: string
  attrs :: "(string \<times> string) list"
  disabled :: jsval
  checked :: jsval
  selected :: jsval
  innerText :: string

definition getAttribute :: "node \<Rightarrow> string \<Rightarrow> jsval" where
  "getAttribute t name = (case map_of (attrs t) name of None \<Rightarrow> JNull | Some v \<Rightarrow> JStr v)"

definition hasAttribute :: "node \<Rightarrow> string \<Rightarrow> bool" where
  "hasAttribute t name = (case map_of (attrs t) name of None \<Rightarrow> False | Some v \<Rightarrow> True)"

definition setAttribute :: "node \<Rightarrow> string \<Rightarrow> string \<Rightarrow> node" where
  "setAttribute t name v = t\<lparr>attrs := AList.update name v (attrs t)\<rparr>"

definition removeAttribute :: "node \<Rightarrow> string \<Rightarrow> node" where
  "removeAttribute t name = t\<lparr>attrs := AList.delete name (attrs t)\<rparr>"

text \<open>The reflecting property \<^verbatim>\<open>t.id\<close>: the attribute's value, or the empty string.\<close>

definition id_prop :: "node \<Rightarrow> string" where
  "id_prop t = (case map_of (attrs t) ''id'' of None \<Rightarrow> [] | Some v \<Rightarrow> v)"

text \<open>
  What a function of the module can be handed as its target \<^verbatim>\<open>t\<close>: \<^verbatim>\<open>null\<close> or
  \<^verbatim>\<open>undefined\<close>; an element; or any other value, one that is not nullish and has no
  \<^verbatim>\<open>getAttribute\<close> and \<^verbatim>\<open>hasAttribute\<close> methods (a text node, the document, a plain
  object), given with the value of its \<^verbatim>\<open>tagName\<close> property, which is \<^verbatim>\<open>undefined\<close> when
  it has none.
\<close>

datatype target = Nullish | Element node | Other jsval

text \<open>
  \<^verbatim>\<open>t?.tagName\<close> and \<^verbatim>\<open>t?.getAttribute(name)\<close>: \<^verbatim>\<open>undefined\<close> on a nullish target. The
  optional chain guards against nothing else: calling the missing method of another value
  throws.
\<close>

definition opt_tagName :: "target \<Rightarrow> jsval" where
  "opt_tagName t =
     (case t of Nullish \<Rightarrow> JUndefined | Element n \<Rightarrow> JStr (tagName n) | Other tn \<Rightarrow> tn)"

definition opt_getAttribute :: "target \<Rightarrow> string \<Rightarrow> error + jsval" where
  "opt_getAttribute t name =
     (case t of Nullish \<Rightarrow> Inr JUndefined | Element n \<Rightarrow> Inr (getAttribute n name)
      | Other tn \<Rightarrow> Inl TypeError)"

text \<open>\<^verbatim>\<open>String(b)\<close>, which \<^verbatim>\<open>setAttribute\<close> applies to a boolean argument.\<close>

definition string_of_bool :: "bool \<Rightarrow> string" where
  "string_of_bool b = (if b then ''true'' else ''false'')"

section \<open>Strings\<close>

text \<open>\<^verbatim>\<open>s.split(" ")\<close>: never empty; the empty string gives one empty piece.\<close>

fun split_on :: "char \<Rightarrow> string \<Rightarrow> string list" where
  "split_on c [] = [[]]"
| "split_on c (x # xs) =
     (if x = c then [] # split_on c xs
      else (case split_on c xs of [] \<Rightarrow> [[x]] | w # ws \<Rightarrow> (x # w) # ws))"

definition split_space :: "string \<Rightarrow> string list" where
  "split_space s = split_on CHR '' '' s"

text \<open>\<^verbatim>\<open>xs.join(" ")\<close>.\<close>

fun join_space :: "string list \<Rightarrow> string" where
  "join_space [] = []"
| "join_space [x] = x"
| "join_space (x # y # ys) = x @ CHR '' '' # join_space (y # ys)"

text \<open>\<^verbatim>\<open>s.includes(p)\<close>: \<open>p\<close> occurs in \<open>s\<close> as a contiguous substring.\<close>

fun starts_with :: "string \<Rightarrow> string \<Rightarrow> bool" where
  "starts_with s [] = True"
| "starts_with [] (p # ps) = False"
| "starts_with (c # cs) (p # ps) = (c = p \<and> starts_with cs ps)"

fun str_includes :: "string \<Rightarrow> string \<Rightarrow> bool" where
  "str_includes [] p = (p = [])"
| "str_includes (c # cs) p = (starts_with (c # cs) p \<or> str_includes cs p)"

section \<open>The class Aria\<close>

text \<open>The instance's only mutable field is \<^verbatim>\<open>href\<close>, initially \<^verbatim>\<open>null\<close>.\<close>

record aria =
  href :: jsval

definition ARIA :: aria where
  "ARIA = \<lparr>href = JNull\<rparr>"

definition disabledRoles :: "string list" where
  "disabledRoles = [''button'', ''group'', ''input'', ''link'', ''menuitem'', ''menuitemradio'',
     ''menuitemcheckbox'', ''tab'', ''combobox'', ''listbox'', ''radio'', ''radiogroup'',
     ''checkbox'', ''select'', ''switch'', ''tablist'', ''textbox'', ''toolbar'']"

definition disabledTags :: "string list" where
  "disabledTags = [''BUTTON'', ''FIELDSET'', ''OPTGROUP'', ''OPTION'', ''SELECT'', ''TEXTAREA'',
     ''INPUT'', ''PROGRESS'', ''A'']"

definition selectedRoles :: "string list" where
  "selectedRoles = [''gridcell'', ''option'', ''row'', ''tab'']"

definition selectedTags :: "string list" where
  "selectedTags = [''OPTION'']"

definition checkedRoles :: "string list" where
  "checkedRoles = [''checkbox'', ''menuitemcheckbox'', ''menuitemradio'', ''option'', ''radio'',
     ''switch'']"

definition checkedTags :: "string list" where
  "checkedTags = [''INPUT'']"

definition expandedRoles :: "string list" where
  "expandedRoles = [''application'', ''button'', ''checkbox'', ''combobox'', ''gridcell'',
     ''link'', ''listbox'', ''menuitem'', ''row'', ''rowheader'', ''tab'', ''treeitem'']"

definition expandedTags :: "string list" where
  "expandedTags = [''BUTTON'']"

subsection \<open>Classifiers\<close>

text \<open>
  \<^verbatim>\<open>a || b\<close> does not evaluate \<open>b\<close> when \<open>a\<close> is true: the role is read, and the read can
  throw, only when no tag matches.
\<close>

definition canDisable :: "target \<Rightarrow> error + bool" where
  "canDisable t =
     (if list_ex (\<lambda>tag. JStr tag = opt_tagName t) disabledTags then Inr True
      else case opt_getAttribute t ''role'' of
             Inl e \<Rightarrow> Inl e
           | Inr r \<Rightarrow> Inr (list_ex (\<lambda>role. JStr role = r) disabledRoles))"

definition canSelect :: "target \<Rightarrow> error + bool" where
  "canSelect t =
     (if list_ex (\<lambda>tag. JStr tag = opt_tagName t) selectedTags then Inr True
      else case opt_getAttribute t ''role'' of
             Inl e \<Rightarrow> Inl e
           | Inr r \<Rightarrow> Inr (list_ex (\<lambda>role. JStr role = r) selectedRoles))"

definition canCheck :: "target \<Rightarrow> error + bool" where
  "canCheck t =
     (if list_ex (\<lambda>tag. JStr tag = opt_tagName t) checkedTags then Inr True
      else case opt_getAttribute t ''role'' of
             Inl e \<Rightarrow> Inl e
           | Inr r \<Rightarrow> Inr (list_ex (\<lambda>role. JStr role = r) checkedRoles))"

definition canExpand :: "target \<Rightarrow> error + bool" where
  "canExpand t =
     (if list_ex (\<lambda>tag. JStr tag = opt_tagName t) expandedTags then Inr True
      else case opt_getAttribute t ''role'' of
             Inl e \<Rightarrow> Inl e
           | Inr r \<Rightarrow> Inr (list_ex (\<lambda>role. JStr role = r) expandedRoles))"

subsection \<open>Readers\<close>

text \<open>
  A reader returns a JavaScript value or throws. After the capability test the target is
  dereferenced without \<^verbatim>\<open>?.\<close>: every reader then calls \<^verbatim>\<open>t.getAttribute\<close>, which throws
  on a target that is not an element.
\<close>

definition isMultiselectable :: "target \<Rightarrow> error + jsval" where
  "isMultiselectable t =
     (case t of Nullish \<Rightarrow> Inl TypeError | Other tn \<Rightarrow> Inl TypeError
      | Element n \<Rightarrow> Inr (JBool (getAttribute n ''aria-multiselectable'' = JStr ''true'')))"

definition isExpanded :: "target \<Rightarrow> error + jsval" where
  "isExpanded t =
     (case canExpand t of Inl e \<Rightarrow> Inl e
      | Inr can \<Rightarrow>
          if \<not> can then Inr (JBool False)
          else case t of Nullish \<Rightarrow> Inl TypeError | Other tn \<Rightarrow> Inl TypeError
            | Element n \<Rightarrow> Inr (JBool (getAttribute n ''aria-expanded'' = JStr ''true'')))"

definition isChecked :: "target \<Rightarrow> error + jsval" where
  "isChecked t =
     (case canCheck t of Inl e \<Rightarrow> Inl e
      | Inr can \<Rightarrow>
          if \<not> can then Inr (JBool False)
          else case t of Nullish \<Rightarrow> Inl TypeError | Other tn \<Rightarrow> Inl TypeError
            | Element n \<Rightarrow>
                if truthy (getAttribute n ''aria-checked'')
                then Inr (JBool (getAttribute n ''aria-checked'' = JStr ''true''))
                else Inr (checked n))"

definition isMixed :: "target \<Rightarrow> error + jsval" where
  "isMixed t =
     (case canCheck t of Inl e \<Rightarrow> Inl e
      | Inr can \<Rightarrow>
          if \<not> can then Inr (JBool False)
          else case t of Nullish \<Rightarrow> Inl TypeError | Other tn \<Rightarrow> Inl TypeError
            | Element n \<Rightarrow> Inr (JBool (getAttribute n ''aria-checked'' = JStr ''mixed'')))"

definition isSelected :: "target \<Rightarrow> error + jsval" where
  "isSelected t =
     (case canSelect t of Inl e \<Rightarrow> Inl e
      | Inr can \<Rightarrow>
          if \<not> can then Inr (JBool False)
          else case t of Nullish \<Rightarrow> Inl TypeError | Other tn \<Rightarrow> Inl TypeError
            | Element n \<Rightarrow>
                if truthy (getAttribute n ''aria-selected'')
                then Inr (JBool (getAttribute n ''aria-selected'' = JStr ''true''))
                else Inr (selected n))"

text \<open>\<^verbatim>\<open>a || b\<close> yields \<open>a\<close> when it is truthy and \<open>b\<close> otherwise.\<close>

definition isCheckedOrSelected :: "target \<Rightarrow> error + jsval" where
  "isCheckedOrSelected t =
     (case isChecked t of Inl e \<Rightarrow> Inl e
      | Inr c \<Rightarrow> if truthy c then Inr c else isSelected t)"

definition isDisabled :: "target \<Rightarrow> error + jsval" where
  "isDisabled t =
     (case canDisable t of Inl e \<Rightarrow> Inl e
      | Inr can \<Rightarrow>
          if \<not> can then Inr (JBool False)
          else case t of Nullish \<Rightarrow> Inl TypeError | Other tn \<Rightarrow> Inl TypeError
            | Element n \<Rightarrow>
                if truthy (getAttribute n ''aria-disabled'')
                then Inr (JBool (getAttribute n ''aria-disabled'' = JStr ''true''))
                else Inr (disabled n))"

subsection \<open>Relationships\<close>

text \<open>
  The document is the list of its elements in tree order. \<^verbatim>\<open>getElementById\<close> returns the
  first element whose id is the argument (an empty id attribute gives an element no id).
  \<^verbatim>\<open>document.querySelector\<close> on a selector built at run time is left to the browser: it
  is the parameter \<open>querySelector\<close> of the functions that call it, and may throw.
\<close>

type_synonym document = "node list"

definition getElementById :: "document \<Rightarrow> string \<Rightarrow> node option" where
  "getElementById doc i =
     (if i = [] then None else find (\<lambda>e. map_of (attrs e) ''id'' = Some i) doc)"

definition getLabelledby :: "node \<Rightarrow> string list option" where
  "getLabelledby t =
     (case map_of (attrs t) ''aria-labelledby'' of None \<Rightarrow> None | Some v \<Rightarrow> Some (split_space v))"

definition getLabelledbyElements :: "document \<Rightarrow> node \<Rightarrow> error + node option list" where
  "getLabelledbyElements doc t =
     (case getLabelledby t of None \<Rightarrow> Inl TypeError
      | Some ids \<Rightarrow> Inr (map (getElementById doc) ids))"

definition getLabelElement :: "(string \<Rightarrow> error + node option) \<Rightarrow> node \<Rightarrow> error + node option" where
  "getLabelElement querySelector t =
     querySelector (''label[for='' @ [CHR 0x22] @ id_prop t @ [CHR 0x22] @ '']'')"

definition getControls :: "node \<Rightarrow> string list option" where
  "getControls t =
     (case map_of (attrs t) ''aria-controls'' of None \<Rightarrow> None | Some v \<Rightarrow> Some (split_space v))"

text \<open>The filter of \<^verbatim>\<open>getControllingElements\<close>; its callback throws on a missing attribute.\<close>

fun filter_includes :: "string \<Rightarrow> node list \<Rightarrow> error + node list" where
  "filter_includes i [] = Inr []"
| "filter_includes i (item # items) =
     (case getAttribute item ''aria-controls'' of
        JStr s \<Rightarrow>
          (case filter_includes i items of Inl e \<Rightarrow> Inl e
           | Inr r \<Rightarrow> Inr (if str_includes s i then item # r else r))
      | _ \<Rightarrow> Inl TypeError)"

text \<open>The result \<open>None\<close> is the \<^verbatim>\<open>null\<close> returned for a target without an id attribute.\<close>

definition getControllingElements :: "document \<Rightarrow> node \<Rightarrow> error + (diag list \<times> node list option)" where
  "getControllingElements doc t =
     (if \<not> hasAttribute t ''id'' then Inr ([Warn_no_id], None)
      else let allControllers = filter (\<lambda>e. hasAttribute e ''aria-controls'') doc
           in case filter_includes (id_prop t) allControllers of
                Inl e \<Rightarrow> Inl e
              | Inr r \<Rightarrow> Inr ([], Some r))"

text \<open>The loop of \<^verbatim>\<open>getLabelText\<close>: \<^verbatim>\<open>el.innerText\<close> throws on a null element.\<close>

fun push_innerText :: "node option list \<Rightarrow> error + string list" where
  "push_innerText [] = Inr []"
| "push_innerText (el # els) =
     (case el of None \<Rightarrow> Inl TypeError
      | Some e \<Rightarrow>
          (case push_innerText els of Inl err \<Rightarrow> Inl err
           | Inr labels \<Rightarrow> Inr (innerText e # labels)))"

definition NO_LABEL_AVAILABLE :: string where
  "NO_LABEL_AVAILABLE = ''NO LABEL AVAILABLE''"

definition getLabelText ::
    "document \<Rightarrow> (string \<Rightarrow> error + node option) \<Rightarrow> node \<Rightarrow>
       error + (diag list \<times> string)" where
  "getLabelText doc querySelector t =
     (case getLabelledby t of
        Some ids \<Rightarrow>
          (case getLabelledbyElements doc t of Inl e \<Rightarrow> Inl e
           | Inr els \<Rightarrow>
               (case push_innerText els of Inl e \<Rightarrow> Inl e
                | Inr labels \<Rightarrow> Inr ([], join_space labels)))
      | None \<Rightarrow>
          if truthy (getAttribute t ''aria-label'')
          then (case getAttribute t ''aria-label'' of JStr s \<Rightarrow> Inr ([], s) | _ \<Rightarrow> Inl TypeError)
          else (case getLabelElement querySelector t of
                  Inl e \<Rightarrow> Inl e
                | Inr (Some l) \<Rightarrow> Inr ([], innerText l)
                | Inr None \<Rightarrow> Inr ([Error_no_label], NO_LABEL_AVAILABLE)))"

subsection \<open>Writers\<close>

text \<open>
  A writer takes the instance and the target and returns both as it leaves them, or throws.
  Past its capability test every path of a writer calls \<^verbatim>\<open>getAttribute\<close> or
  \<^verbatim>\<open>hasAttribute\<close> on the target before it returns, so it throws on a target that is not
  an element.
  The native properties are fields of the node of their own: an assignment to \<^verbatim>\<open>disabled\<close>
  is not reflected in a content attribute (on an anchor it never is; on a form control the
  browser does reflect it, in an attribute that none of the functions modelled here reads).
\<close>

definition handleDisableHref :: "aria \<Rightarrow> node \<Rightarrow> bool \<Rightarrow> aria \<times> node" where
  "handleDisableHref this a doDisable =
     (let this' = this\<lparr>href := getAttribute a ''href''\<rparr> in
      if doDisable then (this', setAttribute (removeAttribute a ''href'') ''role'' ''link'')
      else
        (this', removeAttribute
           (case href this' of JStr s \<Rightarrow> setAttribute a ''href'' s
            | JUndefined \<Rightarrow> a | JNull \<Rightarrow> a
            | JBool b \<Rightarrow> setAttribute a ''href'' (string_of_bool b))
           ''role''))"

definition disable :: "aria \<Rightarrow> target \<Rightarrow> bool \<Rightarrow> error + (aria \<times> target)" where
  "disable this t doDisable =
     (case canDisable t of Inl e \<Rightarrow> Inl e
      | Inr can \<Rightarrow>
          if \<not> can then Inr (this, t)
          else case t of Nullish \<Rightarrow> Inl TypeError | Other tn \<Rightarrow> Inl TypeError
            | Element n \<Rightarrow>
                let (this1, n1) =
                      (if list_ex (\<lambda>tag. tag = tagName n) disabledTags then
                         (let n' = n\<lparr>disabled := JBool doDisable\<rparr> in
                          if tagName n' = ''A'' \<and> hasAttribute n' ''href''
                          then handleDisableHref this n' doDisable
                          else (this, n'))
                       else (this, n));
                    n2 = (if list_ex (\<lambda>role. JStr role = getAttribute n1 ''role'') disabledRoles
                          then setAttribute n1 ''aria-disabled'' (string_of_bool doDisable)
                          else n1)
                in Inr (this1, Element n2))"

definition select :: "target \<Rightarrow> bool \<Rightarrow> error + target" where
  "select t doSelect =
     (case canSelect t of Inl e \<Rightarrow> Inl e
      | Inr can \<Rightarrow>
          if \<not> can then Inr t
          else case t of Nullish \<Rightarrow> Inl TypeError | Other tn \<Rightarrow> Inl TypeError
            | Element n \<Rightarrow>
                let n1 = (if list_ex (\<lambda>tag. tag = tagName n) selectedTags
                          then n\<lparr>selected := JBool doSelect\<rparr> else n);
                    n2 = (if list_ex (\<lambda>role. JStr role = getAttribute n1 ''role'') selectedRoles
                          then setAttribute n1 ''aria-selected'' (string_of_bool doSelect)
                          else n1)
                in Inr (Element n2))"

definition check :: "target \<Rightarrow> bool \<Rightarrow> error + target" where
  "check t doCheck =
     (case canCheck t of Inl e \<Rightarrow> Inl e
      | Inr can \<Rightarrow>
          if \<not> can then Inr t
          else case t of Nullish \<Rightarrow> Inl TypeError | Other tn \<Rightarrow> Inl TypeError
            | Element n \<Rightarrow>
                let role_branch =
                      (\<lambda>n1. if list_ex (\<lambda>role. JStr role = getAttribute n1 ''role'') checkedRoles
                            then setAttribute n1 ''aria-checked'' (string_of_bool doCheck)
                            else n1)
                in
                  if list_ex (\<lambda>tag. tag = tagName n) checkedTags then
                    (if getAttribute n ''type'' \<noteq> JStr ''radio'' \<and>
                        getAttribute n ''type'' \<noteq> JStr ''checkbox''
                     then Inr (Element n)
                     else Inr (Element (role_branch (n\<lparr>checked := JBool doCheck\<rparr>))))
                  else Inr (Element (role_branch n)))"

text \<open>\<^verbatim>\<open>this.getControls(t).length\<close> throws when the attribute is missing.\<close>

definition expand :: "target \<Rightarrow> bool \<Rightarrow> error + (diag list \<times> target)" where
  "expand t doExpand =
     (case canExpand t of Inl e \<Rightarrow> Inl e
      | Inr can \<Rightarrow>
          if \<not> can then Inr ([], t)
          else case t of Nullish \<Rightarrow> Inl TypeError | Other tn \<Rightarrow> Inl TypeError
            | Element n \<Rightarrow>
                (case getControls n of None \<Rightarrow> Inl TypeError
                 | Some ids \<Rightarrow>
                     Inr (if length ids < 1 then [Warn_no_controls] else [],
                          Element (setAttribute n ''aria-expanded'' (string_of_bool doExpand)))))"

subsection \<open>Sequential focus\<close>

text \<open>
  The selector \<^verbatim>\<open>focusableElements\<close>, matched against one element: a type selector matches
  the tag name, \<^verbatim>\<open>[a]\<close> the presence of an attribute, and the last alternative an element
  with a tabindex attribute whose value is not \<^verbatim>\<open>-1\<close>.
\<close>

definition focusableTags :: "string list" where
  "focusableTags = [''AUDIO'', ''BUTTON'', ''CANVAS'', ''DETAILS'', ''IFRAME'', ''INPUT'',
     ''SELECT'', ''SUMMARY'', ''TEXTAREA'', ''VIDEO'', ''PROGRESS'']"

definition focusableElements :: "node \<Rightarrow> bool" where
  "focusableElements e =
     (list_ex (\<lambda>tag. tag = tagName e) focusableTags \<or>
      hasAttribute e ''href'' \<or> hasAttribute e ''accesskey'' \<or>
      hasAttribute e ''contenteditable'' \<or>
      (hasAttribute e ''tabindex'' \<and> getAttribute e ''tabindex'' \<noteq> JStr ''-1''))"

text \<open>
  A container is the list of its descendants in tree order; \<^verbatim>\<open>makeUntabbable\<close> writes the
  attribute on those the selector matches when it is called.
\<close>

definition makeUntabbable :: "node list \<Rightarrow> bool \<Rightarrow> node list" where
  "makeUntabbable c isUntabbable =
     map (\<lambda>el. if focusableElements el
               then setAttribute el ''tabindex'' (if isUntabbable then ''-1'' else ''0'')
               else el) c"

section \<open>Call sequences and reference definitions\<close>

text \<open>Disabling a target and then enabling it again, on the same instance.\<close>

definition disable_then_enable :: "aria \<Rightarrow> target \<Rightarrow> error + (aria \<times> target)" where
  "disable_then_enable this t =
     (case disable this t True of Inl e \<Rightarrow> Inl e
      | Inr (this1, t1) \<Rightarrow> disable this1 t1 False)"

text \<open>\<^verbatim>\<open>makeUntabbable(c, true)\<close> followed by \<^verbatim>\<open>makeUntabbable(c, false)\<close>.\<close>

definition untabbable_then_tabbable :: "node list \<Rightarrow> node list" where
  "untabbable_then_tabbable c = makeUntabbable (makeUntabbable c True) False"

text \<open>
  The reverse lookup as the specification words it: the elements of the document whose
  controls-reference list, split as \<open>getControls\<close> splits it, has the target's identifier
  as one of its members.
\<close>

definition controllingElements_spec :: "document \<Rightarrow> node \<Rightarrow> node list" where
  "controllingElements_spec doc t =
     filter (\<lambda>e. case getControls e of None \<Rightarrow> False | Some ids \<Rightarrow> id_prop t \<in> set ids) doc"

section \<open>Example elements\<close>

text \<open>\<^verbatim>\<open><a href="/home">Home</a>\<close>, and the same element after a disable and an enable.\<close>

definition ex_link :: node where
  "ex_link = \<lparr>tagName = ''A'', attrs = [(''href'', ''/home'')], disabled = JUndefined,
     checked = JUndefined, selected = JUndefined, innerText = ''Home''\<rparr>"

definition ex_link_after :: node where
  "ex_link_after = \<lparr>tagName = ''A'',
     attrs = [(''role'', ''link''), (''aria-disabled'', ''false'')],
     disabled = JBool False, checked = JUndefined, selected = JUndefined, innerText = ''Home''\<rparr>"

text \<open>\<^verbatim>\<open><input type="button" role="checkbox">\<close>.\<close>

definition ex_input_button :: node where
  "ex_input_button = \<lparr>tagName = ''INPUT'',
     attrs = [(''type'', ''button''), (''role'', ''checkbox'')],
     disabled = JBool False, checked = JBool False, selected = JUndefined, innerText = []\<rparr>"

text \<open>\<^verbatim>\<open><button>Menu</button>\<close>, with no aria-controls attribute.\<close>

definition ex_button :: node where
  "ex_button = \<lparr>tagName = ''BUTTON'', attrs = [], disabled = JBool False, checked = JUndefined,
     selected = JUndefined, innerText = ''Menu''\<rparr>"

text \<open>A document with a button that controls \<^verbatim>\<open>panel10\<close> and an element whose id is \<^verbatim>\<open>panel1\<close>.\<close>

definition ex_controller :: node where
  "ex_controller = \<lparr>tagName = ''BUTTON'', attrs = [(''aria-controls'', ''panel10'')],
     disabled = JBool False, checked = JUndefined, selected = JUndefined, innerText = ''Open''\<rparr>"

definition ex_panel :: node where
  "ex_panel = \<lparr>tagName = ''DIV'', attrs = [(''id'', ''panel1'')],
     disabled = JUndefined, checked = JUndefined, selected = JUndefined, innerText = []\<rparr>"

definition ex_doc :: document where
  "ex_doc = [ex_controller, ex_panel]"

text \<open>\<^verbatim>\<open><div tabindex="0">\<close>: the selector matches it by its tabindex alone.\<close>

definition ex_div_tabindex :: node where
  "ex_div_tabindex = \<lparr>tagName = ''DIV'', attrs = [(''tabindex'', ''0'')],
     disabled = JUndefined, checked = JUndefined, selected = JUndefined, innerText = []\<rparr>"

text \<open>\<^verbatim>\<open><span class="badge">New</span>\<close>: no axis applies to it.\<close>

definition ex_span :: node where
  "ex_span = \<lparr>tagName = ''SPAN'', attrs = [(''class'', ''badge'')], disabled = JUndefined,
     checked = JUndefined, selected = JUndefined, innerText = ''New''\<rparr>"

text \<open>Checked checkboxes whose aria-checked attribute is empty, and \<^verbatim>\<open>false\<close>.\<close>

definition ex_checkbox_empty :: node where
  "ex_checkbox_empty = \<lparr>tagName = ''INPUT'',
     attrs = [(''type'', ''checkbox''), (''aria-checked'', [])],
     disabled = JBool False, checked = JBool True, selected = JUndefined, innerText = []\<rparr>"

definition ex_checkbox_false :: node where
  "ex_checkbox_false = \<lparr>tagName = ''INPUT'',
     attrs = [(''type'', ''checkbox''), (''aria-checked'', ''false'')],
     disabled = JBool False, checked = JBool True, selected = JUndefined, innerText = []\<rparr>"

text \<open>An option whose three ARIA state attributes are all empty.\<close>

definition ex_option_empty :: node where
  "ex_option_empty = \<lparr>tagName = ''OPTION'',
     attrs = [(''role'', ''option''), (''aria-checked'', []), (''aria-selected'', []),
              (''aria-disabled'', [])],
     disabled = JBool True, checked = JUndefined, selected = JBool True, innerText = ''One''\<rparr>"

text \<open>A group labelled by \<^verbatim>\<open>title\<close>, which exists, and \<^verbatim>\<open>hint\<close>, which does not.\<close>

definition ex_title :: node where
  "ex_title = \<lparr>tagName = ''H2'', attrs = [(''id'', ''title'')], disabled = JUndefined,
     checked = JUndefined, selected = JUndefined, innerText = ''Settings''\<rparr>"

definition ex_labelled :: node where
  "ex_labelled = \<lparr>tagName = ''DIV'',
     attrs = [(''role'', ''group''), (''aria-labelledby'', ''title hint'')],
     disabled = JUndefined, checked = JUndefined, selected = JUndefined, innerText = []\<rparr>"

definition ex_querySelector :: "string \<Rightarrow> error + node option" where
  "ex_querySelector sel = Inr None"

section \<open>Basic facts\<close>

lemmas dom_defs = getAttribute_def hasAttribute_def setAttribute_def removeAttribute_def
  id_prop_def opt_tagName_def opt_getAttribute_def string_of_bool_def

lemmas tab_defs = disabledRoles_def disabledTags_def selectedRoles_def selectedTags_def
  checkedRoles_def checkedTags_def expandedRoles_def expandedTags_def

lemmas can_defs = canDisable_def canSelect_def canCheck_def canExpand_def

lemma getAttribute_setAttribute:
  "getAttribute (setAttribute n k v) k' = (if k' = k then JStr v else getAttribute n k')"
  by (simp add: getAttribute_def setAttribute_def update_conv')

lemma getAttribute_removeAttribute:
  "getAttribute (removeAttribute n k) k' = (if k' = k then JNull else getAttribute n k')"
  by (simp add: getAttribute_def removeAttribute_def delete_conv')

lemma hasAttribute_setAttribute:
  "hasAttribute (setAttribute n k v) k' = (k' = k \<or> hasAttribute n k')"
  by (simp add: hasAttribute_def setAttribute_def update_conv')

lemma hasAttribute_removeAttribute:
  "hasAttribute (removeAttribute n k) k' = (k' \<noteq> k \<and> hasAttribute n k')"
  by (simp add: hasAttribute_def removeAttribute_def delete_conv')

lemma tagName_setAttribute [simp]: "tagName (setAttribute n k v) = tagName n"
  by (simp add: setAttribute_def)

lemma tagName_removeAttribute [simp]: "tagName (removeAttribute n k) = tagName n"
  by (simp add: removeAttribute_def)

lemma getAttribute_disabled_update [simp]:
  "getAttribute (n\<lparr>disabled := v\<rparr>) k = getAttribute n k"
  by (simp add: getAttribute_def)

lemma hasAttribute_disabled_update [simp]:
  "hasAttribute (n\<lparr>disabled := v\<rparr>) k = hasAttribute n k"
  by (simp add: hasAttribute_def)

lemma can_Nullish:
  "canDisable Nullish = Inr False" "canSelect Nullish = Inr False" "canCheck Nullish = Inr False"
  "canExpand Nullish = Inr False"
  by (simp_all add: can_defs tab_defs opt_tagName_def opt_getAttribute_def)

text \<open>On an element a classifier returns a boolean.\<close>

lemma can_Element:
  "\<exists>b. canDisable (Element n) = Inr b" "\<exists>b. canSelect (Element n) = Inr b"
  "\<exists>b. canCheck (Element n) = Inr b" "\<exists>b. canExpand (Element n) = Inr b"
  by (auto simp: can_defs opt_getAttribute_def)

text \<open>
  On any other value it throws, unless the value's \<^verbatim>\<open>tagName\<close> is in the tag table, and
  never returns false.
\<close>

lemma can_Other:
  "canDisable (Other tn) =
     (if list_ex (\<lambda>tag. JStr tag = tn) disabledTags then Inr True else Inl TypeError)"
  "canSelect (Other tn) =
     (if list_ex (\<lambda>tag. JStr tag = tn) selectedTags then Inr True else Inl TypeError)"
  "canCheck (Other tn) =
     (if list_ex (\<lambda>tag. JStr tag = tn) checkedTags then Inr True else Inl TypeError)"
  "canExpand (Other tn) =
     (if list_ex (\<lambda>tag. JStr tag = tn) expandedTags then Inr True else Inl TypeError)"
  by (simp_all add: can_defs opt_tagName_def opt_getAttribute_def)

lemma split_on_not_Nil: "split_on c s \<noteq> []"
  by (induction s) (auto split: list.splits)

text \<open>\<open>starts_with\<close> and \<open>str_includes\<close> are the prefix and the substring relation.\<close>

lemma starts_with_iff: "starts_with s p \<longleftrightarrow> (\<exists>b. s = p @ b)"
  by (induction s p rule: starts_with.induct) auto

lemma str_includes_iff: "str_includes s p \<longleftrightarrow> (\<exists>a b. s = a @ p @ b)"
proof (induction s)
  case Nil
  then show ?case by auto
next
  case (Cons c cs)
  show ?case
  proof
    assume "str_includes (c # cs) p"
    then consider "starts_with (c # cs) p" | "str_includes cs p" by auto
    then show "\<exists>a b. c # cs = a @ p @ b"
    proof cases
      case 1
      then obtain b where "c # cs = p @ b" by (auto simp: starts_with_iff)
      then have "c # cs = [] @ p @ b" by simp
      then show ?thesis by blast
    next
      case 2
      with Cons obtain a b where "cs = a @ p @ b" by auto
      then have "c # cs = (c # a) @ p @ b" by simp
      then show ?thesis by blast
    qed
  next
    assume "\<exists>a b. c # cs = a @ p @ b"
    then obtain a b where ab: "c # cs = a @ p @ b" by blast
    show "str_includes (c # cs) p"
    proof (cases a)
      case Nil
      with ab have "starts_with (c # cs) p" by (auto simp: starts_with_iff)
      then show ?thesis by simp
    next
      case (Cons x a')
      with ab have "cs = a' @ p @ b" by simp
      with Cons.IH have "str_includes cs p" by blast
      then show ?thesis by simp
    qed
  qed
qed

text \<open>Every piece of a split is a substring of the string that was split.\<close>

lemma split_on_head_prefix: "split_on c s = w # ws \<Longrightarrow> \<exists>b. s = w @ b"
proof (induction s arbitrary: w ws)
  case Nil
  then show ?case by simp
next
  case (Cons x xs)
  show ?case
  proof (cases "x = c")
    case True
    with Cons.prems show ?thesis by simp
  next
    case False
    obtain w' ws' where sp: "split_on c xs = w' # ws'"
      using split_on_not_Nil [of c xs] by (cases "split_on c xs") auto
    with Cons.IH obtain b where "xs = w' @ b" by blast
    moreover from Cons.prems False sp have "w = x # w'" by simp
    ultimately show ?thesis by simp
  qed
qed

lemma split_on_member_substring: "i \<in> set (split_on c s) \<Longrightarrow> \<exists>a b. s = a @ i @ b"
proof (induction s arbitrary: i)
  case Nil
  then show ?case by simp
next
  case (Cons x xs)
  show ?case
  proof (cases "x = c")
    case True
    with Cons.prems consider "i = []" | "i \<in> set (split_on c xs)" by auto
    then show ?thesis
    proof cases
      case 1
      then have "x # xs = [] @ i @ (x # xs)" by simp
      then show ?thesis by blast
    next
      case 2
      with Cons.IH obtain a b where "xs = a @ i @ b" by blast
      then have "x # xs = (x # a) @ i @ b" by simp
      then show ?thesis by blast
    qed
  next
    case False
    obtain w ws where sp: "split_on c xs = w # ws"
      using split_on_not_Nil [of c xs] by (cases "split_on c xs") auto
    with Cons.prems False consider "i = x # w" | "i \<in> set ws" by auto
    then show ?thesis
    proof cases
      case 1
      from split_on_head_prefix [OF sp] obtain b where "xs = w @ b" by blast
      with 1 have "x # xs = [] @ i @ b" by simp
      then show ?thesis by blast
    next
      case 2
      with sp have "i \<in> set (split_on c xs)" by simp
      with Cons.IH obtain a b where "xs = a @ i @ b" by blast
      then have "x # xs = (x # a) @ i @ b" by simp
      then show ?thesis by blast
    qed
  qed
qed

section \<open>Disabling and enabling a hyperlink\<close>

lemma link_in_disabledRoles: "list_ex (\<lambda>role. JStr role = JStr ''link'') disabledRoles"
  by (simp add: disabledRoles_def)

lemma A_in_disabledTags: "list_ex (\<lambda>tag. tag = ''A'') disabledTags"
  by (simp add: disabledTags_def)

lemma canDisable_anchor: "tagName n = ''A'' \<Longrightarrow> canDisable (Element n) = Inr True"
  using A_in_disabledTags by (simp add: canDisable_def opt_tagName_def)

text \<open>
  Disabling an anchor with an href stores the href in the instance, removes the attribute,
  gives the anchor the role \<^verbatim>\<open>link\<close> and, that role being disableable, sets aria-disabled.
\<close>

lemma disable_anchor:
  assumes "tagName n = ''A''" and "hasAttribute n ''href''"
  shows "disable this (Element n) True =
     Inr (this\<lparr>href := getAttribute n ''href''\<rparr>,
          Element (setAttribute
                 (setAttribute (removeAttribute (n\<lparr>disabled := JBool True\<rparr>) ''href'')
                    ''role'' ''link'')
                 ''aria-disabled'' ''true''))"
  using assms A_in_disabledTags link_in_disabledRoles
  by (simp add: disable_def canDisable_anchor handleDisableHref_def Let_def
      getAttribute_setAttribute string_of_bool_def)

text \<open>
  Enabling an anchor that has no href does not reach \<open>handleDisableHref\<close>: only the
  property and aria-disabled are written.
\<close>

lemma enable_anchor_without_href:
  assumes "tagName n = ''A''" and "\<not> hasAttribute n ''href''"
    and "getAttribute n ''role'' = JStr ''link''"
  shows "disable this (Element n) False =
     Inr (this, Element (setAttribute (n\<lparr>disabled := JBool False\<rparr>) ''aria-disabled'' ''false''))"
  using assms A_in_disabledTags link_in_disabledRoles
  by (simp add: disable_def canDisable_anchor Let_def string_of_bool_def)

text \<open>Hence no anchor gets its href back, and every one keeps the role \<^verbatim>\<open>link\<close>.\<close>

lemma disable_then_enable_anchor:
  assumes "tagName n = ''A''" and "hasAttribute n ''href''"
  shows "\<exists>this' n'. disable_then_enable this (Element n) = Inr (this', Element n') \<and>
           getAttribute n' ''href'' = JNull \<and> getAttribute n' ''role'' = JStr ''link''"
proof -
  let ?n1 = "setAttribute
               (setAttribute (removeAttribute (n\<lparr>disabled := JBool True\<rparr>) ''href'')
                  ''role'' ''link'')
               ''aria-disabled'' ''true''"
  let ?n2 = "setAttribute (?n1\<lparr>disabled := JBool False\<rparr>) ''aria-disabled'' ''false''"
  have tag: "tagName ?n1 = ''A''"
    using assms(1) by simp
  have nohref: "\<not> hasAttribute ?n1 ''href''"
    by (simp add: hasAttribute_setAttribute hasAttribute_removeAttribute)
  have role: "getAttribute ?n1 ''role'' = JStr ''link''"
    by (simp add: getAttribute_setAttribute)
  have href: "getAttribute ?n1 ''href'' = JNull"
    by (simp add: getAttribute_setAttribute getAttribute_removeAttribute)
  have "disable_then_enable this (Element n) = Inr (this\<lparr>href := getAttribute n ''href''\<rparr>, Element ?n2)"
    unfolding disable_then_enable_def disable_anchor [OF assms]
    by (simp add: enable_anchor_without_href [OF tag nohref role])
  moreover have "getAttribute ?n2 ''href'' = JNull"
    using href by (simp add: getAttribute_setAttribute)
  moreover have "getAttribute ?n2 ''role'' = JStr ''link''"
    using role by (simp add: getAttribute_setAttribute)
  ultimately show ?thesis by blast
qed

text \<open>
  C1. The claim: disabling and then enabling an anchor that carries an href restores the
  href and removes the role. On \<^verbatim>\<open><a href="/home">\<close> the code does neither: the second
  call finds no href attribute, so it skips the restoring branch; the anchor is left
  without href, with role \<^verbatim>\<open>link\<close> and aria-disabled \<^verbatim>\<open>false\<close>, and the value stays in
  the instance.
\<close>

theorem disable_then_enable_loses_href:
  "tagName ex_link = ''A'' \<and> getAttribute ex_link ''href'' = JStr ''/home'' \<and>
   disable_then_enable ARIA (Element ex_link) = Inr (\<lparr>href = JStr ''/home''\<rparr>, Element ex_link_after) \<and>
   getAttribute ex_link_after ''href'' = JNull \<and>
   getAttribute ex_link_after ''role'' = JStr ''link''"
  by (simp add: disable_then_enable_def disable_def canDisable_def ex_link_def
      ex_link_after_def ARIA_def tab_defs dom_defs handleDisableHref_def AList.delete_eq)

section \<open>Checking an input that is neither a radio button nor a checkbox\<close>

text \<open>The guard on the type attribute returns from \<open>check\<close> before the role is looked at.\<close>

lemma check_input_other_type:
  assumes "tagName n = ''INPUT''"
    and "getAttribute n ''type'' \<noteq> JStr ''radio''"
    and "getAttribute n ''type'' \<noteq> JStr ''checkbox''"
  shows "check (Element n) v = Inr (Element n)"
  using assms by (simp add: check_def canCheck_def opt_tagName_def checkedTags_def Let_def)

text \<open>
  C2. The claim: on an INPUT whose type is neither \<^verbatim>\<open>radio\<close> nor \<^verbatim>\<open>checkbox\<close> and whose
  role is checkable, \<open>check\<close> leaves the native flag alone and still sets aria-checked.
  On \<^verbatim>\<open><input type="button" role="checkbox">\<close> the code returns the element as it was:
  aria-checked stays absent.
\<close>

theorem check_input_button_skips_role:
  "list_ex (\<lambda>tag. tag = tagName ex_input_button) checkedTags \<and>
   getAttribute ex_input_button ''type'' = JStr ''button'' \<and>
   list_ex (\<lambda>role. JStr role = getAttribute ex_input_button ''role'') checkedRoles \<and>
   check (Element ex_input_button) True = Inr (Element ex_input_button) \<and>
   getAttribute ex_input_button ''aria-checked'' = JNull"
  by (simp add: ex_input_button_def dom_defs tab_defs check_def canCheck_def)

section \<open>Expanding\<close>

text \<open>Without an aria-controls attribute \<open>expand\<close> throws, whatever else the element has.\<close>

lemma expand_missing_controls:
  assumes "canExpand (Element n) = Inr True" and "map_of (attrs n) ''aria-controls'' = None"
  shows "expand (Element n) v = Inl TypeError"
  using assms by (simp add: expand_def getControls_def)

text \<open>With one, it sets aria-expanded and never warns: a split has at least one piece.\<close>

lemma expand_with_controls:
  assumes "canExpand (Element n) = Inr True" and "map_of (attrs n) ''aria-controls'' = Some s"
  shows "expand (Element n) v =
           Inr ([], Element (setAttribute n ''aria-expanded'' (string_of_bool v)))"
proof -
  have "\<not> length (split_space s) < 1"
    using split_on_not_Nil [of "CHR '' ''" s] by (simp add: split_space_def)
  with assms show ?thesis
    by (simp add: expand_def getControls_def)
qed

text \<open>
  C3. The claim: on an expandable element \<open>expand\<close> sets aria-expanded, and an empty or
  absent controls-reference list only gives a warning. On \<^verbatim>\<open><button>Menu</button>\<close>,
  which has no aria-controls attribute, the code throws a TypeError and sets nothing.
\<close>

theorem expand_without_controls_throws:
  "canExpand (Element ex_button) = Inr True \<and> getAttribute ex_button ''aria-controls'' = JNull \<and>
   expand (Element ex_button) True = Inl TypeError"
  by (simp add: ex_button_def dom_defs tab_defs expand_def canExpand_def getControls_def)

section \<open>Controlling elements\<close>

lemma filter_includes_eq:
  "list_all (\<lambda>e. hasAttribute e ''aria-controls'') es \<Longrightarrow>
   filter_includes i es =
     Inr (filter (\<lambda>e. case map_of (attrs e) ''aria-controls'' of
                        None \<Rightarrow> False | Some s \<Rightarrow> str_includes s i) es)"
  by (induction es) (auto simp: hasAttribute_def getAttribute_def split: option.splits)

text \<open>
  What \<open>getControllingElements\<close> returns for a target with an id attribute: the elements
  whose aria-controls value has the id as a substring.
\<close>

lemma getControllingElements_eq:
  assumes "hasAttribute t ''id''"
  shows "getControllingElements doc t =
     Inr ([], Some (filter (\<lambda>e. case map_of (attrs e) ''aria-controls'' of
                        None \<Rightarrow> False | Some s \<Rightarrow> str_includes s (id_prop t)) doc))"
proof -
  let ?P = "\<lambda>e. hasAttribute e ''aria-controls''"
  let ?Q = "\<lambda>e. case map_of (attrs e) ''aria-controls'' of
                        None \<Rightarrow> False | Some s \<Rightarrow> str_includes s (id_prop t)"
  have "list_all ?P (filter ?P doc)" by (simp add: list_all_iff)
  then have "filter_includes (id_prop t) (filter ?P doc) = Inr (filter ?Q (filter ?P doc))"
    by (rule filter_includes_eq)
  moreover have "filter ?Q (filter ?P doc) = filter ?Q doc"
    by (induction doc) (auto simp: hasAttribute_def split: option.splits)
  ultimately show ?thesis
    using assms by (simp add: getControllingElements_def)
qed

text \<open>It returns every element that lists the id, and possibly more.\<close>

lemma controllingElements_spec_subset:
  assumes "hasAttribute t ''id''"
  shows "\<exists>r. getControllingElements doc t = Inr ([], Some r) \<and>
             set (controllingElements_spec doc t) \<subseteq> set r"
proof -
  have "set (controllingElements_spec doc t) \<subseteq>
        set (filter (\<lambda>e. case map_of (attrs e) ''aria-controls'' of
                        None \<Rightarrow> False | Some s \<Rightarrow> str_includes s (id_prop t)) doc)"
    using split_on_member_substring
    by (auto simp: controllingElements_spec_def getControls_def split_space_def str_includes_iff
        split: option.splits)
  then show ?thesis
    by (simp add: getControllingElements_eq [OF assms])
qed

text \<open>
  C4. The claim: \<open>getControllingElements\<close> returns exactly the elements whose reference list
  has the target's id as a member, and not one whose references only contain it inside a
  longer identifier. For the target with id \<^verbatim>\<open>panel1\<close> the code returns the button whose
  only reference is \<^verbatim>\<open>panel10\<close>; by the specification's wording nothing controls the target.
\<close>

theorem getControllingElements_substring:
  "hasAttribute ex_panel ''id'' \<and>
   getControls ex_controller = Some [''panel10''] \<and>
   controllingElements_spec ex_doc ex_panel = [] \<and>
   getControllingElements ex_doc ex_panel = Inr ([], Some [ex_controller])"
  by (simp add: ex_controller_def ex_panel_def ex_doc_def dom_defs getControllingElements_def
      getControls_def split_space_def controllingElements_spec_def)

section \<open>Removing a container from the tab order and restoring it\<close>

text \<open>
  The round trip on every element: one the selector matches by its tag or by an href,
  accesskey or contenteditable attribute ends with tabindex 0; one it matches by its
  tabindex alone is set to -1 and stays there, since the second call no longer selects it.
\<close>

lemma untabbable_then_tabbable_eq:
  "untabbable_then_tabbable c =
     map (\<lambda>e. if list_ex (\<lambda>tag. tag = tagName e) focusableTags \<or> hasAttribute e ''href'' \<or>
                 hasAttribute e ''accesskey'' \<or> hasAttribute e ''contenteditable''
              then setAttribute (setAttribute e ''tabindex'' ''-1'') ''tabindex'' ''0''
              else if hasAttribute e ''tabindex'' \<and> getAttribute e ''tabindex'' \<noteq> JStr ''-1''
              then setAttribute e ''tabindex'' ''-1''
              else e) c"
  by (induction c)
    (auto simp: untabbable_then_tabbable_def makeUntabbable_def focusableElements_def
      hasAttribute_setAttribute getAttribute_setAttribute)

text \<open>
  C5. The claim: after \<open>makeUntabbable\<close> with true and then with false, every element the
  selector matched at first has tabindex 0, also one matched only by an explicit tabindex.
  \<^verbatim>\<open><div tabindex="0">\<close> is matched at first, by its tabindex alone, and ends with
  tabindex -1.
\<close>

theorem makeUntabbable_round_trip_tabindex_only:
  "focusableElements ex_div_tabindex \<and>
   list_ex (\<lambda>tag. tag = tagName ex_div_tabindex) focusableTags = False \<and>
   untabbable_then_tabbable [ex_div_tabindex] = [setAttribute ex_div_tabindex ''tabindex'' ''-1''] \<and>
   getAttribute (setAttribute ex_div_tabindex ''tabindex'' ''-1'') ''tabindex'' = JStr ''-1''"
  by (simp add: ex_div_tabindex_def dom_defs focusableElements_def focusableTags_def
      makeUntabbable_def untabbable_then_tabbable_def)

section \<open>Totality of the classifiers and readers\<close>

text \<open>A reader of a target that is not nullish and not an element throws.\<close>

lemma readers_Other:
  "isDisabled (Other tn) = Inl TypeError" "isSelected (Other tn) = Inl TypeError"
  "isChecked (Other tn) = Inl TypeError" "isExpanded (Other tn) = Inl TypeError"
  "isMixed (Other tn) = Inl TypeError" "isCheckedOrSelected (Other tn) = Inl TypeError"
  "isMultiselectable (Other tn) = Inl TypeError"
  by (simp_all add: isDisabled_def isSelected_def isChecked_def isExpanded_def isMixed_def
      isCheckedOrSelected_def isMultiselectable_def can_Other)

text \<open>So does a writer.\<close>

lemma writers_Other:
  "disable this (Other tn) v = Inl TypeError" "select (Other tn) v = Inl TypeError"
  "check (Other tn) v = Inl TypeError" "expand (Other tn) v = Inl TypeError"
  by (simp_all add: disable_def select_def check_def expand_def can_Other)

lemma isChecked_Element: "\<exists>v. isChecked (Element n) = Inr v"
  using can_Element(3) [of n] by (auto simp: isChecked_def)

lemma isSelected_Element: "\<exists>v. isSelected (Element n) = Inr v"
  using can_Element(2) [of n] by (auto simp: isSelected_def)

text \<open>
  C6, as the claim states it: every classifier and reader, \<open>isMultiselectable\<close> among them,
  returns false or a sentinel on every input, a null target included, and never throws.
  \<open>isMultiselectable\<close> dereferences its target without a guard and throws on null. The
  optional chain of the classifiers passes every value that is not nullish: on a text node
  (no \<^verbatim>\<open>tagName\<close>, no \<^verbatim>\<open>getAttribute\<close>) \<open>canDisable\<close> throws, and \<open>isDisabled\<close> with it.
\<close>

theorem classifiers_readers_throw:
  "isMultiselectable Nullish = Inl TypeError \<and>
   canDisable (Other JUndefined) = Inl TypeError \<and>
   isDisabled (Other JUndefined) = Inl TypeError"
  by (simp add: isMultiselectable_def isDisabled_def canDisable_def opt_tagName_def
      opt_getAttribute_def disabledTags_def)

text \<open>
  C6, amended: on a null or undefined target the four classifiers and the readers
  \<open>isDisabled\<close>, \<open>isSelected\<close>, \<open>isChecked\<close>, \<open>isExpanded\<close>, \<open>isMixed\<close> and
  \<open>isCheckedOrSelected\<close> return false; on every element each of them, and
  \<open>isMultiselectable\<close>, returns a value and does not throw.
\<close>

theorem classifiers_readers_total:
  "canDisable Nullish = Inr False \<and> canSelect Nullish = Inr False \<and>
   canCheck Nullish = Inr False \<and> canExpand Nullish = Inr False \<and>
   isDisabled Nullish = Inr (JBool False) \<and> isSelected Nullish = Inr (JBool False) \<and>
   isChecked Nullish = Inr (JBool False) \<and> isExpanded Nullish = Inr (JBool False) \<and>
   isMixed Nullish = Inr (JBool False) \<and> isCheckedOrSelected Nullish = Inr (JBool False) \<and>
   (\<exists>b. canDisable (Element n) = Inr b) \<and> (\<exists>b. canSelect (Element n) = Inr b) \<and>
   (\<exists>b. canCheck (Element n) = Inr b) \<and> (\<exists>b. canExpand (Element n) = Inr b) \<and>
   (\<exists>v. isDisabled (Element n) = Inr v) \<and> (\<exists>v. isSelected (Element n) = Inr v) \<and>
   (\<exists>v. isChecked (Element n) = Inr v) \<and> (\<exists>v. isExpanded (Element n) = Inr v) \<and>
   (\<exists>v. isMixed (Element n) = Inr v) \<and> (\<exists>v. isCheckedOrSelected (Element n) = Inr v) \<and>
   (\<exists>b. isMultiselectable (Element n) = Inr (JBool b))"
proof -
  have nullish: "isDisabled Nullish = Inr (JBool False)" "isSelected Nullish = Inr (JBool False)"
    "isChecked Nullish = Inr (JBool False)" "isExpanded Nullish = Inr (JBool False)"
    "isMixed Nullish = Inr (JBool False)"
    by (simp_all add: isDisabled_def isSelected_def isChecked_def isExpanded_def isMixed_def
        can_Nullish)
  have both: "isCheckedOrSelected Nullish = Inr (JBool False)"
    by (simp add: isCheckedOrSelected_def nullish)
  have 1: "\<exists>v. isDisabled (Element n) = Inr v"
    using can_Element(1) [of n] by (auto simp: isDisabled_def)
  have 2: "\<exists>v. isExpanded (Element n) = Inr v"
    using can_Element(4) [of n] by (auto simp: isExpanded_def)
  have 3: "\<exists>v. isMixed (Element n) = Inr v"
    using can_Element(3) [of n] by (auto simp: isMixed_def)
  have 4: "\<exists>v. isCheckedOrSelected (Element n) = Inr v"
    using isChecked_Element [of n] isSelected_Element [of n]
    by (auto simp: isCheckedOrSelected_def)
  have 5: "\<exists>b. isMultiselectable (Element n) = Inr (JBool b)"
    by (simp add: isMultiselectable_def)
  show ?thesis
    using nullish both 1 2 3 4 5 isChecked_Element [of n] isSelected_Element [of n]
      can_Element [of n]
    by (simp add: can_Nullish)
qed

section \<open>An axis the target does not support\<close>

text \<open>
  C7. If the capability predicate of an axis is false on a target, the axis's reader returns
  false, and its writer, with any desired value, returns the target (and the instance) as
  they were and reports nothing.
\<close>

theorem unsupported_axis_frame:
  "(canDisable t = Inr False \<longrightarrow>
      isDisabled t = Inr (JBool False) \<and> disable this t v = Inr (this, t)) \<and>
   (canSelect t = Inr False \<longrightarrow> isSelected t = Inr (JBool False) \<and> select t v = Inr t) \<and>
   (canCheck t = Inr False \<longrightarrow>
      isChecked t = Inr (JBool False) \<and> isMixed t = Inr (JBool False) \<and> check t v = Inr t) \<and>
   (canExpand t = Inr False \<longrightarrow>
      isExpanded t = Inr (JBool False) \<and> expand t v = Inr ([], t))"
  by (simp add: isDisabled_def disable_def isSelected_def select_def isChecked_def isMixed_def
      check_def isExpanded_def expand_def)

theorem unsupported_axis_frame_witness:
  "canDisable (Element ex_span) = Inr False \<and> canSelect (Element ex_span) = Inr False \<and>
   canCheck (Element ex_span) = Inr False \<and> canExpand (Element ex_span) = Inr False \<and>
   isDisabled (Element ex_span) = Inr (JBool False) \<and>
   disable ARIA (Element ex_span) True = Inr (ARIA, Element ex_span) \<and>
   isSelected (Element ex_span) = Inr (JBool False) \<and>
   select (Element ex_span) True = Inr (Element ex_span) \<and>
   isChecked (Element ex_span) = Inr (JBool False) \<and> isMixed (Element ex_span) = Inr (JBool False) \<and>
   check (Element ex_span) True = Inr (Element ex_span) \<and>
   isExpanded (Element ex_span) = Inr (JBool False) \<and>
   expand (Element ex_span) True = Inr ([], Element ex_span)"
proof -
  have h: "canDisable (Element ex_span) = Inr False" "canSelect (Element ex_span) = Inr False"
    "canCheck (Element ex_span) = Inr False" "canExpand (Element ex_span) = Inr False"
    by (simp_all add: can_defs tab_defs ex_span_def dom_defs)
  show ?thesis
    using h unsupported_axis_frame [of "Element ex_span" ARIA True] by simp
qed

section \<open>Precedence of the ARIA attribute in the readers\<close>

text \<open>
  C8, as the claim states it: on a checkable element that carries an aria-checked
  attribute, \<open>isChecked\<close> is true exactly when the attribute's value is \<^verbatim>\<open>true\<close>. A checked
  checkbox whose aria-checked attribute is the empty string carries the attribute, its value
  is not \<^verbatim>\<open>true\<close>, and \<open>isChecked\<close> returns true.
\<close>

theorem isChecked_empty_aria_counterexample:
  "canCheck (Element ex_checkbox_empty) = Inr True \<and> hasAttribute ex_checkbox_empty ''aria-checked'' \<and>
   \<not> (isChecked (Element ex_checkbox_empty) = Inr (JBool True) \<longleftrightarrow>
        getAttribute ex_checkbox_empty ''aria-checked'' = JStr ''true'')"
  by (simp add: isChecked_def canCheck_def tab_defs ex_checkbox_empty_def dom_defs)

text \<open>
  C8, amended: on a checkable element whose aria-checked attribute is present and not
  empty, \<open>isChecked\<close> is true exactly when the value is \<^verbatim>\<open>true\<close>, whatever the native flag;
  when the attribute is absent or empty, \<open>isChecked\<close> returns the native flag.
\<close>

theorem isChecked_precedence:
  "canCheck (Element n) = Inr True \<Longrightarrow>
   isChecked (Element n) =
     Inr (case map_of (attrs n) ''aria-checked'' of
            None \<Rightarrow> checked n
          | Some s \<Rightarrow> if s = [] then checked n else JBool (s = ''true''))"
  by (simp add: isChecked_def getAttribute_def split: option.splits)

theorem isChecked_precedence_witness:
  "canCheck (Element ex_checkbox_false) = Inr True \<and> checked ex_checkbox_false = JBool True \<and>
   isChecked (Element ex_checkbox_false) = Inr (JBool False)"
proof -
  have h: "canCheck (Element ex_checkbox_false) = Inr True"
    by (simp add: canCheck_def tab_defs ex_checkbox_false_def dom_defs)
  show ?thesis
    using h isChecked_precedence [OF h] by (simp add: ex_checkbox_false_def)
qed

text \<open>
  C9. On an element that supports the axis and whose aria-checked, aria-selected or
  aria-disabled attribute is present but empty, \<open>isChecked\<close>, \<open>isSelected\<close> or \<open>isDisabled\<close>
  returns the element's native flag.
\<close>

theorem empty_aria_attribute_falls_back:
  "(canCheck (Element n) = Inr True \<and> map_of (attrs n) ''aria-checked'' = Some [] \<longrightarrow>
      isChecked (Element n) = Inr (checked n)) \<and>
   (canSelect (Element n) = Inr True \<and> map_of (attrs n) ''aria-selected'' = Some [] \<longrightarrow>
      isSelected (Element n) = Inr (selected n)) \<and>
   (canDisable (Element n) = Inr True \<and> map_of (attrs n) ''aria-disabled'' = Some [] \<longrightarrow>
      isDisabled (Element n) = Inr (disabled n))"
  by (simp add: isChecked_def isSelected_def isDisabled_def getAttribute_def)

theorem empty_aria_attribute_falls_back_witness:
  "canCheck (Element ex_option_empty) = Inr True \<and>
   canSelect (Element ex_option_empty) = Inr True \<and>
   canDisable (Element ex_option_empty) = Inr True \<and>
   hasAttribute ex_option_empty ''aria-checked'' \<and>
   hasAttribute ex_option_empty ''aria-selected'' \<and>
   hasAttribute ex_option_empty ''aria-disabled'' \<and>
   isChecked (Element ex_option_empty) = Inr JUndefined \<and>
   isSelected (Element ex_option_empty) = Inr (JBool True) \<and>
   isDisabled (Element ex_option_empty) = Inr (JBool True)"
proof -
  have c: "canCheck (Element ex_option_empty) = Inr True"
    "canSelect (Element ex_option_empty) = Inr True"
    "canDisable (Element ex_option_empty) = Inr True"
    by (simp_all add: can_defs tab_defs ex_option_empty_def dom_defs)
  have a: "map_of (attrs ex_option_empty) ''aria-checked'' = Some []"
    "map_of (attrs ex_option_empty) ''aria-selected'' = Some []"
    "map_of (attrs ex_option_empty) ''aria-disabled'' = Some []"
    by (simp_all add: ex_option_empty_def)
  have f: "checked ex_option_empty = JUndefined" "selected ex_option_empty = JBool True"
    "disabled ex_option_empty = JBool True"
    by (simp_all add: ex_option_empty_def)
  show ?thesis
    using c a f empty_aria_attribute_falls_back [of ex_option_empty]
    by (simp add: hasAttribute_def)
qed

section \<open>Label text with an unresolved reference\<close>

lemma push_innerText_null: "None \<in> set els \<Longrightarrow> push_innerText els = Inl TypeError"
proof (induction els)
  case Nil
  then show ?case by simp
next
  case (Cons el els)
  show ?case
  proof (cases el)
    case None
    then show ?thesis by simp
  next
    case (Some e)
    with Cons have "push_innerText els = Inl TypeError" by simp
    with Some show ?thesis by simp
  qed
qed

text \<open>
  C10. If the aria-labelledby attribute of an element is present and one of the identifiers
  in it resolves to no element of the document, \<open>getLabelText\<close> throws a TypeError: it
  neither skips the identifier nor returns the no-label sentinel.
\<close>

theorem getLabelText_unresolved_throws:
  assumes "map_of (attrs t) ''aria-labelledby'' = Some v"
    and "i \<in> set (split_space v)"
    and "getElementById doc i = None"
  shows "getLabelText doc querySelector t = Inl TypeError"
proof -
  have "None \<in> set (map (getElementById doc) (split_space v))"
    using assms(2,3) by force
  then have "push_innerText (map (getElementById doc) (split_space v)) = Inl TypeError"
    by (rule push_innerText_null)
  then show ?thesis
    using assms(1) by (simp add: getLabelText_def getLabelledby_def getLabelledbyElements_def)
qed

theorem getLabelText_unresolved_throws_witness:
  "map_of (attrs ex_labelled) ''aria-labelledby'' = Some ''title hint'' \<and>
   ''hint'' \<in> set (split_space ''title hint'') \<and>
   getElementById [ex_title, ex_labelled] ''title'' = Some ex_title \<and>
   getElementById [ex_title, ex_labelled] ''hint'' = None \<and>
   getLabelText [ex_title, ex_labelled] ex_querySelector ex_labelled = Inl TypeError"
proof -
  have a: "map_of (attrs ex_labelled) ''aria-labelledby'' = Some ''title hint''"
    by (simp add: ex_labelled_def)
  have b: "''hint'' \<in> set (split_space ''title hint'')"
    by (simp add: split_space_def)
  have c: "getElementById [ex_title, ex_labelled] ''hint'' = None"
    by (simp add: getElementById_def ex_title_def ex_labelled_def)
  have d: "getElementById [ex_title, ex_labelled] ''title'' = Some ex_title"
    by (simp add: getElementById_def ex_title_def ex_labelled_def)
  show ?thesis
    using a b c d getLabelText_unresolved_throws [OF a b c, of ex_querySelector] by simp
qed

end
